theory Spec2Isabelle
  imports Complex_Main "HOL-Library.Char_ord" "HOL-Library.List_Lexorder"
begin

section \<open>Route optimizer (router/ai/optimizer.py)\<close>

text \<open>
  A shallow embedding of \<^verbatim>\<open>RouteGNN\<close>, \<^verbatim>\<open>RouteOptimizer\<close> and \<^verbatim>\<open>cost_function\<close>.

  Numbers. Python floats and the float32 entries of arrays and tensors are modelled as
  exact reals: rounding, infinities and NaN are outside the model. Python ints are \<open>int\<close>;
  indices that the code produces itself (\<^verbatim>\<open>enumerate\<close>, \<^verbatim>\<open>list.index\<close>) are \<open>nat\<close>.

  Dictionaries. A route and a hop are Python dicts read at fixed keys; they are records
  with one field per key that the code reads, so a missing key is excluded by the type.
  \<^verbatim>\<open>self.chain_metadata\<close> and \<^verbatim>\<open>chain_to_idx\<close> are looked up at computed keys and are
  maps; a missing key there is the error branch \<open>KeyError\<close>.

  Tensors. A two-dimensional tensor is the list of its rows. \<^verbatim>\<open>torch.tensor([])\<close>, of
  shape \<^verbatim>\<open>[0]\<close>, is the empty list.

  Library code. The layers of torch and torch_geometric are not part of the repository.
  A module object (\<^verbatim>\<open>GCNConv\<close>, \<^verbatim>\<open>nn.Linear\<close>, \<^verbatim>\<open>nn.Dropout\<close>) is the function that
  calling it computes; the free functions of the library that the code calls are the
  fields of the record \<open>torch\<close>, which every operation that uses them takes as its first
  argument. All results below hold for every such library.

  Not modelled: \<^verbatim>\<open>load_model\<close> and \<^verbatim>\<open>save_model\<close> (checkpoint files), the loop
  \<^verbatim>\<open>RouteOptimizer.train\<close> with its optimizer, \<^verbatim>\<open>generate_training_data\<close>, and the
  printing of the example at the end of the file; no result below is about them.
\<close>

subsection \<open>Errors\<close>

datatype error =
    ValueError string
  | KeyError string
  | IndexError
  | RuntimeError

subsection \<open>Data model\<close>

record hop =
  from_chain :: string
  to_chain :: string
  bridge_type :: string
  cost :: real
  time_ms :: real

record route =
  source_chain :: string
  target_chain :: string
  hops :: "hop list"
  estimated_cost :: real
  estimated_time_ms :: real
  confidence_score :: real

text \<open>One entry of \<^verbatim>\<open>self.chain_metadata\<close>; \<open>chain_id\<close> is the key \<^verbatim>\<open>'id'\<close>.\<close>

record chain_meta =
  chain_id :: int
  avg_latency :: real
  avg_cost :: real
  reliability :: real

type_synonym tensor = "real list list"

text \<open>The state of torch's global random number generator.\<close>

type_synonym generator = nat

text \<open>
  \<^verbatim>\<open>torch_geometric.data.Data(x=, edge_index=, edge_attr=)\<close>, and \<^verbatim>\<open>Batch\<close>, which adds
  the node-to-graph assignment \<^verbatim>\<open>batch\<close>.
\<close>

record Data =
  data_x :: tensor
  data_edge_index :: "nat list list"
  data_edge_attr :: tensor

record Batch = Data +
  data_batch :: "nat list"

text \<open>What \<^verbatim>\<open>predictions.squeeze()\<close> returns: a tensor of any rank.\<close>

datatype ndarray = Scalar real | Array "ndarray list"

text \<open>
  \<^verbatim>\<open>RouteGNN\<close>: its five layers, each the function its call computes (the weights are
  inside), the stochastic map that \<^verbatim>\<open>nn.Dropout(0.2)\<close> applies in training mode, which
  reads and advances the generator, and the flag \<^verbatim>\<open>training\<close> of \<^verbatim>\<open>nn.Module\<close>, which
  \<^verbatim>\<open>train()\<close> and \<^verbatim>\<open>eval()\<close> set on the module and all its submodules together.
\<close>

record RouteGNN =
  conv1 :: "tensor \<Rightarrow> nat list list \<Rightarrow> error + tensor"
  conv2 :: "tensor \<Rightarrow> nat list list \<Rightarrow> error + tensor"
  conv3 :: "tensor \<Rightarrow> nat list list \<Rightarrow> error + tensor"
  fc1 :: "tensor \<Rightarrow> error + tensor"
  fc2 :: "tensor \<Rightarrow> error + tensor"
  dropout :: "generator \<Rightarrow> tensor \<Rightarrow> tensor \<times> generator"
  training :: bool

text \<open>The free functions of torch and torch_geometric that the code calls.\<close>

record torch =
  relu :: "tensor \<Rightarrow> tensor"
  global_mean_pool :: "tensor \<Rightarrow> nat list \<Rightarrow> error + tensor"
  from_data_list :: "Data list \<Rightarrow> error + Batch"
  squeeze :: "tensor \<Rightarrow> ndarray"
  mse_loss :: "ndarray \<Rightarrow> real list \<Rightarrow> error + real"

record RouteOptimizer =
  model :: RouteGNN
  chain_metadata :: "string \<rightharpoonup> chain_meta"

subsection \<open>\<^verbatim>\<open>RouteOptimizer.__init__\<close>\<close>

definition chain_metadata_init :: "string \<rightharpoonup> chain_meta" where
  "chain_metadata_init =
     [''ethereum'' \<mapsto> \<lparr>chain_id = 0, avg_latency = 15000, avg_cost = 50000, reliability = 0.99\<rparr>,
      ''polkadot'' \<mapsto> \<lparr>chain_id = 1, avg_latency = 6000, avg_cost = 30000, reliability = 0.98\<rparr>,
      ''bitcoin'' \<mapsto> \<lparr>chain_id = 2, avg_latency = 600000, avg_cost = 100000, reliability = 0.95\<rparr>,
      ''cosmos'' \<mapsto> \<lparr>chain_id = 3, avg_latency = 7000, avg_cost = 40000, reliability = 0.97\<rparr>,
      ''sentium'' \<mapsto> \<lparr>chain_id = 4, avg_latency = 500, avg_cost = 10000, reliability = 0.99\<rparr>]"

text \<open>
  The constructor without \<^verbatim>\<open>model_path\<close>. The freshly built \<^verbatim>\<open>RouteGNN()\<close>, whose
  weights the library draws at random, is the argument.
\<close>

definition init :: "RouteGNN \<Rightarrow> RouteOptimizer" where
  "init gnn = \<lparr>model = gnn, chain_metadata = chain_metadata_init\<rparr>"

subsection \<open>\<^verbatim>\<open>encode_chain\<close>\<close>

text \<open>\<^verbatim>\<open>np.zeros(n)\<close>.\<close>

definition zeros :: "nat \<Rightarrow> real list" where
  "zeros n = replicate n 0"

text \<open>
  \<^verbatim>\<open>a[i] = v\<close> on a one-dimensional array: a negative index counts from the end, an index
  outside \<^verbatim>\<open>-len(a) .. len(a)-1\<close> raises IndexError.
\<close>

definition setitem :: "real list \<Rightarrow> int \<Rightarrow> real \<Rightarrow> error + real list" where
  "setitem a i v =
     (let n = int (length a);
          j = (if i < 0 then n + i else i)
      in if 0 \<le> j \<and> j < n then Inr (a[nat j := v]) else Inl IndexError)"

definition encode_chain :: "RouteOptimizer \<Rightarrow> string \<Rightarrow> error + real list" where
  "encode_chain self chain_name =
     (case chain_metadata self chain_name of
        None \<Rightarrow> Inr (zeros 16)
      | Some meta \<Rightarrow>
          (let features = zeros 16;
               features = features[0 := real_of_int (chain_id meta) / 10];
               features = features[1 := avg_latency meta / 1000000];
               features = features[2 := avg_cost meta / 100000];
               features = features[3 := reliability meta]
           in setitem features (4 + chain_id meta) 1))"

subsection \<open>\<^verbatim>\<open>create_graph_from_route\<close>\<close>

text \<open>The first loop: the set of the chains that the hops name.\<close>

definition collect_chains :: "hop list \<Rightarrow> string set" where
  "collect_chains hs =
     fold (\<lambda>hop chains. insert (to_chain hop) (insert (from_chain hop) chains)) hs {}"

text \<open>\<^verbatim>\<open>{chain: idx for idx, chain in enumerate(chains)}\<close>: a later pair overwrites.\<close>

definition chain_index :: "string list \<Rightarrow> (string \<rightharpoonup> nat)" where
  "chain_index chain_list =
     fold (\<lambda>(idx, chain) d. d(chain \<mapsto> idx)) (enumerate 0 chain_list) Map.empty"

definition getitem :: "(string \<rightharpoonup> 'a) \<Rightarrow> string \<Rightarrow> error + 'a" where
  "getitem d k = (case d k of None \<Rightarrow> Inl (KeyError k) | Some v \<Rightarrow> Inr v)"

text \<open>The second loop: one feature row per chain, stopping at the first error.\<close>

fun node_rows :: "RouteOptimizer \<Rightarrow> string list \<Rightarrow> error + tensor" where
  "node_rows self [] = Inr []"
| "node_rows self (chain # chain_list) =
     (case encode_chain self chain of
        Inl e \<Rightarrow> Inl e
      | Inr features \<Rightarrow>
          (case node_rows self chain_list of
             Inl e \<Rightarrow> Inl e
           | Inr node_features \<Rightarrow> Inr (features # node_features)))"

definition bridge_types :: "string list" where
  "bridge_types = [''Native'', ''Wrapped'', ''Liquidity'', ''Relay'']"

text \<open>\<^verbatim>\<open>list.index\<close>: the position of the first occurrence, ValueError if there is none.\<close>

fun index :: "string list \<Rightarrow> string \<Rightarrow> error + nat" where
  "index [] v = Inl (ValueError ''not in list'')"
| "index (u # us) v =
     (if u = v then Inr 0
      else (case index us v of Inl e \<Rightarrow> Inl e | Inr i \<Rightarrow> Inr (Suc i)))"

definition edge_features_of :: "hop \<Rightarrow> error + real list" where
  "edge_features_of hop =
     (let edge_features = [cost hop / 100000, time_ms hop / 1000000];
          bridge_onehot = replicate 4 0
      in if bridge_type hop \<in> set bridge_types
         then (case index bridge_types (bridge_type hop) of
                 Inl e \<Rightarrow> Inl e
               | Inr i \<Rightarrow> Inr (edge_features @ bridge_onehot[i := 1]))
         else Inr (edge_features @ bridge_onehot))"

text \<open>
  The third loop: for each hop, in order, the pair of node indices and the edge features.
\<close>

fun edge_rows :: "(string \<rightharpoonup> nat) \<Rightarrow> hop list \<Rightarrow> error + (nat list list \<times> tensor)" where
  "edge_rows chain_to_idx [] = Inr ([], [])"
| "edge_rows chain_to_idx (hop # hs) =
     (case getitem chain_to_idx (from_chain hop) of
        Inl e \<Rightarrow> Inl e
      | Inr from_idx \<Rightarrow>
     (case getitem chain_to_idx (to_chain hop) of
        Inl e \<Rightarrow> Inl e
      | Inr to_idx \<Rightarrow>
     (case edge_features_of hop of
        Inl e \<Rightarrow> Inl e
      | Inr edge_features \<Rightarrow>
     (case edge_rows chain_to_idx hs of
        Inl e \<Rightarrow> Inl e
      | Inr (edge_index, edge_attr) \<Rightarrow>
          Inr ([from_idx, to_idx] # edge_index, edge_features # edge_attr)))))"

text \<open>
  \<^verbatim>\<open>sorted(list(chains))\<close> is \<open>sorted_list_of_set\<close> in the lexicographic order of strings;
  \<^verbatim>\<open>.t()\<close> is \<open>transpose\<close>, which leaves the empty tensor as it is.
\<close>

definition create_graph_from_route :: "RouteOptimizer \<Rightarrow> route \<Rightarrow> error + Data" where
  "create_graph_from_route self route =
     (let hs = hops route;
          chain_list = sorted_list_of_set (collect_chains hs);
          chain_to_idx = chain_index chain_list
      in case node_rows self chain_list of
           Inl e \<Rightarrow> Inl e
         | Inr node_features \<Rightarrow>
             (case edge_rows chain_to_idx hs of
                Inl e \<Rightarrow> Inl e
              | Inr (edge_index, edge_attr) \<Rightarrow>
                  Inr \<lparr>data_x = node_features,
                       data_edge_index = transpose edge_index,
                       data_edge_attr = edge_attr\<rparr>))"

subsection \<open>\<^verbatim>\<open>cost_function\<close>\<close>


subsection \<open>\<^verbatim>\<open>RouteGNN.forward\<close>\<close>

text \<open>\<^verbatim>\<open>nn.Module.eval()\<close> and \<^verbatim>\<open>nn.Module.train()\<close>.\<close>

definition Module_eval :: "RouteGNN \<Rightarrow> RouteGNN" where
  "Module_eval self = self\<lparr>training := False\<rparr>"

definition Module_train :: "RouteGNN \<Rightarrow> RouteGNN" where
  "Module_train self = self\<lparr>training := True\<rparr>"

text \<open>
  Calling \<^verbatim>\<open>self.dropout\<close>: the identity outside training mode, where it leaves the
  generator alone.
\<close>

definition Dropout :: "RouteGNN \<Rightarrow> generator \<Rightarrow> tensor \<Rightarrow> tensor \<times> generator" where
  "Dropout self g t = (if training self then dropout self g t else (t, g))"

text \<open>
  The forward pass returns the scores, or the error that a layer raised, and the
  generator as the dropout calls left it. \<open>edge_attr\<close> is a parameter, as in the source.
\<close>

definition forward ::
  "torch \<Rightarrow> RouteGNN \<Rightarrow> generator \<Rightarrow> tensor \<Rightarrow> nat list list \<Rightarrow> tensor \<Rightarrow> nat list
     \<Rightarrow> (error + tensor) \<times> generator" where
  "forward T self g x edge_index edge_attr batch =
     (case conv1 self x edge_index of
        Inl e \<Rightarrow> (Inl e, g)
      | Inr x1 \<Rightarrow>
          (let (x1, g) = Dropout self g (relu T x1)
           in case conv2 self x1 edge_index of
                Inl e \<Rightarrow> (Inl e, g)
              | Inr x2 \<Rightarrow>
                  (let (x2, g) = Dropout self g (relu T x2)
                   in case conv3 self x2 edge_index of
                        Inl e \<Rightarrow> (Inl e, g)
                      | Inr x3 \<Rightarrow>
                          (case global_mean_pool T (relu T x3) batch of
                             Inl e \<Rightarrow> (Inl e, g)
                           | Inr pooled \<Rightarrow>
                               (case fc1 self pooled of
                                  Inl e \<Rightarrow> (Inl e, g)
                                | Inr h \<Rightarrow>
                                    (let (h, g) = Dropout self g (relu T h)
                                     in case fc2 self h of
                                          Inl e \<Rightarrow> (Inl e, g)
                                        | Inr out \<Rightarrow> (Inr out, g)))))))"

subsection \<open>\<^verbatim>\<open>score_route\<close>\<close>

text \<open>\<^verbatim>\<open>Tensor.item()\<close>: the value of a tensor with exactly one element.\<close>

definition item :: "tensor \<Rightarrow> error + real" where
  "item t = (case t of [[v]] \<Rightarrow> Inr v | _ \<Rightarrow> Inl RuntimeError)"

text \<open>
  The operations of \<^verbatim>\<open>RouteOptimizer\<close> that run the model return the result or the
  error raised, the optimizer as the call left it (also when it raised), and the
  generator.
\<close>

definition score_route ::
  "torch \<Rightarrow> RouteOptimizer \<Rightarrow> generator \<Rightarrow> route
     \<Rightarrow> (error + real) \<times> RouteOptimizer \<times> generator" where
  "score_route T self g route =
     (let self = self\<lparr>model := Module_eval (model self)\<rparr>
      in case create_graph_from_route self route of
           Inl e \<Rightarrow> (Inl e, self, g)
         | Inr graph \<Rightarrow>
             (let batch = replicate (length (data_x graph)) 0;
                  (score, g) = forward T (model self) g (data_x graph)
                                 (data_edge_index graph) (data_edge_attr graph) batch
              in case score of
                   Inl e \<Rightarrow> (Inl e, self, g)
                 | Inr score \<Rightarrow> (item score, self, g)))"

subsection \<open>\<^verbatim>\<open>optimize_route\<close>\<close>

text \<open>The scoring loop: the pairs \<^verbatim>\<open>(score, route)\<close> in input order.\<close>

fun score_all ::
  "torch \<Rightarrow> RouteOptimizer \<Rightarrow> generator \<Rightarrow> route list
     \<Rightarrow> (error + (real \<times> route) list) \<times> RouteOptimizer \<times> generator" where
  "score_all T self g [] = (Inr [], self, g)"
| "score_all T self g (route # routes) =
     (case score_route T self g route of
        (Inl e, self, g) \<Rightarrow> (Inl e, self, g)
      | (Inr score, self, g) \<Rightarrow>
          (case score_all T self g routes of
             (Inl e, self, g) \<Rightarrow> (Inl e, self, g)
           | (Inr scored_routes, self, g) \<Rightarrow>
               (Inr ((score, route) # scored_routes), self, g)))"

text \<open>
  \<^verbatim>\<open>scored_routes.sort(key=lambda x: x[0], reverse=True)\<close>. Python's sort is stable, also
  with \<^verbatim>\<open>reverse=True\<close>: the pairs come out by descending score, pairs of equal score in
  their original order. That is the stable ascending sort on the negated score.
\<close>

definition sort_reverse :: "(real \<times> route) list \<Rightarrow> (real \<times> route) list" where
  "sort_reverse scored_routes = sort_key (\<lambda>x. - fst x) scored_routes"

definition optimize_route ::
  "torch \<Rightarrow> RouteOptimizer \<Rightarrow> generator \<Rightarrow> route list
     \<Rightarrow> (error + route) \<times> RouteOptimizer \<times> generator" where
  "optimize_route T self g routes =
     (if routes = [] then (Inl (ValueError ''No routes provided''), self, g)
      else if length routes = 1 then (Inr (hd routes), self, g)
      else (case score_all T self g routes of
              (Inl e, self, g) \<Rightarrow> (Inl e, self, g)
            | (Inr scored_routes, self, g) \<Rightarrow>
                (case sort_reverse scored_routes of
                   [] \<Rightarrow> (Inl IndexError, self, g)
                 | best # _ \<Rightarrow> (Inr (snd best), self, g))))"

subsection \<open>\<^verbatim>\<open>train_step\<close>\<close>

text \<open>\<^verbatim>\<open>loss.item()\<close> is the loss itself: \<^verbatim>\<open>F.mse_loss\<close> returns one number.\<close>

definition train_step ::
  "torch \<Rightarrow> RouteOptimizer \<Rightarrow> generator \<Rightarrow> Data list \<Rightarrow> real list
     \<Rightarrow> (error + real) \<times> RouteOptimizer \<times> generator" where
  "train_step T self g batch_graphs labels =
     (let self = self\<lparr>model := Module_train (model self)\<rparr>
      in case from_data_list T batch_graphs of
           Inl e \<Rightarrow> (Inl e, self, g)
         | Inr batch \<Rightarrow>
             (let (predictions, g) = forward T (model self) g (data_x batch)
                                       (data_edge_index batch) (data_edge_attr batch)
                                       (data_batch batch)
              in case predictions of
                   Inl e \<Rightarrow> (Inl e, self, g)
                 | Inr predictions \<Rightarrow>
                     (mse_loss T (squeeze T predictions) labels, self, g)))"

subsection \<open>An instance to run the definitions on\<close>

text \<open>
  A small library and network, used where a result is evaluated on concrete routes. The
  convolution adds, to the sum of a node's features, the sums of the features of the
  nodes with an edge into it, so the hidden width is one; pooling is the per-graph mean
  of each column; the head sums each row. In training mode the dropout of this instance
  zeroes the tensor when the generator state is a multiple of 4 and scales it by
  \<open>1 / 0.8\<close> otherwise; either way it advances the generator.
\<close>

definition conv_example :: "tensor \<Rightarrow> nat list list \<Rightarrow> error + tensor" where
  "conv_example x edge_index =
     (case edge_index of
        [src, dst] \<Rightarrow>
          Inr (map (\<lambda>i. [sum_list (x ! i) +
                          sum_list (map (\<lambda>(j, k). sum_list (x ! j))
                                      (filter (\<lambda>(j, k). k = i) (zip src dst)))])
                 [0..<length x])
      | _ \<Rightarrow> Inl RuntimeError)"

definition gnn_example :: RouteGNN where
  "gnn_example =
     \<lparr>conv1 = conv_example, conv2 = conv_example, conv3 = conv_example,
      fc1 = Inr, fc2 = (\<lambda>h. Inr (map (\<lambda>row. [sum_list row]) h)),
      dropout = (\<lambda>g t. (map (map (\<lambda>v. if g mod 4 = 0 then 0 else v / 0.8)) t, Suc g)),
      training = True\<rparr>"

definition mean_rows :: "tensor \<Rightarrow> real list" where
  "mean_rows rows = map (\<lambda>col. sum_list col / real (length col)) (transpose rows)"

definition pool_example :: "tensor \<Rightarrow> nat list \<Rightarrow> error + tensor" where
  "pool_example x batch =
     (if batch = [] \<or> length batch \<noteq> length x then Inl RuntimeError
      else Inr (map (\<lambda>k. mean_rows (map fst (filter (\<lambda>(row, b). b = k) (zip x batch))))
                  [0..<Suc (fold max batch 0)]))"

definition collate_example :: "Data list \<Rightarrow> error + Batch" where
  "collate_example graphs =
     (if graphs = [] then Inl IndexError
      else Inr \<lparr>data_x = concat (map data_x graphs),
                data_edge_index =
                  map (\<lambda>r. concat (map (\<lambda>(k, d).
                         map (\<lambda>i. i + length (concat (map data_x (take k graphs))))
                           (data_edge_index d ! r)) (enumerate 0 graphs))) [0, 1],
                data_edge_attr = concat (map data_edge_attr graphs),
                data_batch = concat (map (\<lambda>(k, d). replicate (length (data_x d)) k)
                                        (enumerate 0 graphs))\<rparr>)"

definition mse_example :: "ndarray \<Rightarrow> real list \<Rightarrow> error + real" where
  "mse_example predictions labels =
     (case predictions of
        Scalar p \<Rightarrow> Inl RuntimeError
      | Array ps \<Rightarrow>
          (if ps = [] \<or> length ps \<noteq> length labels then Inl RuntimeError
           else Inr (sum_list (map (\<lambda>(p, l). (case p of Scalar v \<Rightarrow> (v - l)\<^sup>2 | Array _ \<Rightarrow> 0))
                                (zip ps labels)) / real (length labels))))"

definition torch_example :: torch where
  "torch_example =
     \<lparr>relu = map (map (max 0)),
      global_mean_pool = pool_example,
      from_data_list = collate_example,
      squeeze = (\<lambda>t. Array (map Scalar (concat t))),
      mse_loss = mse_example\<rparr>"

text \<open>The two candidate routes of the example at the end of the source file.\<close>

definition test_route_1 :: route where
  "test_route_1 =
     \<lparr>source_chain = ''ethereum'', target_chain = ''polkadot'',
      hops = [\<lparr>from_chain = ''ethereum'', to_chain = ''sentium'', bridge_type = ''Native'',
                cost = 50000, time_ms = 5000\<rparr>,
              \<lparr>from_chain = ''sentium'', to_chain = ''polkadot'', bridge_type = ''Native'',
                cost = 30000, time_ms = 3000\<rparr>],
      estimated_cost = 80000, estimated_time_ms = 8000, confidence_score = 0.97\<rparr>"

definition test_route_2 :: route where
  "test_route_2 =
     \<lparr>source_chain = ''ethereum'', target_chain = ''polkadot'',
      hops = [\<lparr>from_chain = ''ethereum'', to_chain = ''polkadot'', bridge_type = ''Liquidity'',
                cost = 80000, time_ms = 8000\<rparr>],
      estimated_cost = 80000, estimated_time_ms = 8000, confidence_score = 0.90\<rparr>"

section \<open>Properties\<close>

subsection \<open>Encoding a chain\<close>




lemma setitem_total:
  "0 \<le> i \<Longrightarrow> i < int (length a) \<Longrightarrow> \<exists>v. setitem a i x = Inr v"
  by (simp add: setitem_def)

lemma chain_metadata_init_ids:
  "chain_metadata_init chain_name = Some meta \<Longrightarrow> 0 \<le> chain_id meta \<and> chain_id meta < 12"
  by (auto simp: chain_metadata_init_def split: if_splits)

lemma encode_chain_init_total: "\<exists>v. encode_chain (init gnn) c = Inr v"
proof (cases "chain_metadata_init c")
  case None
  then show ?thesis by (simp add: encode_chain_def init_def)
next
  case (Some meta)
  then have "0 \<le> 4 + chain_id meta" "4 + chain_id meta < 16"
    using chain_metadata_init_ids by fastforce+
  then show ?thesis
    using Some by (simp add: encode_chain_def init_def Let_def zeros_def setitem_total)
qed




subsection \<open>Building the graph\<close>

lemma fold_insert_chains:
  "fold (\<lambda>hop chains. insert (to_chain hop) (insert (from_chain hop) chains)) hs A =
     A \<union> (\<Union>h \<in> set hs. {from_chain h, to_chain h})"
  by (induction hs arbitrary: A) auto

lemma collect_chains_eq:
  "collect_chains hs = (\<Union>h \<in> set hs. {from_chain h, to_chain h})"
  by (simp add: collect_chains_def fold_insert_chains)

lemma finite_collect_chains: "finite (collect_chains hs)"
  by (simp add: collect_chains_eq)

lemma fold_enumerate_dom:
  "dom (fold (\<lambda>(idx, chain) d. d(chain \<mapsto> idx)) (enumerate n cs) d0) = dom d0 \<union> set cs"
  by (induction cs arbitrary: n d0) auto

lemma dom_chain_index: "dom (chain_index cs) = set cs"
  by (simp add: chain_index_def fold_enumerate_dom)

lemma node_rows_length:
  "node_rows self cs = Inr rows \<Longrightarrow> length rows = length cs"
  by (induction cs arbitrary: rows) (auto split: sum.splits)

lemma node_rows_total:
  assumes "\<And>c. c \<in> set cs \<Longrightarrow> \<exists>v. encode_chain self c = Inr v"
  shows "\<exists>rows. node_rows self cs = Inr rows"
  using assms
proof (induction cs)
  case Nil
  then show ?case by simp
next
  case (Cons c cs)
  obtain v where v: "encode_chain self c = Inr v" using Cons.prems [of c] by auto
  have "\<And>c'. c' \<in> set cs \<Longrightarrow> \<exists>v. encode_chain self c' = Inr v"
    using Cons.prems by simp
  from Cons.IH [OF this] obtain rows where "node_rows self cs = Inr rows" by blast
  with v show ?case by simp
qed

lemma index_member: "v \<in> set us \<Longrightarrow> \<exists>i. index us v = Inr i"
  by (induction us) auto

lemma edge_features_of_total: "\<exists>f. edge_features_of hop = Inr f"
proof (cases "bridge_type hop \<in> set bridge_types")
  case True
  then obtain i where "index bridge_types (bridge_type hop) = Inr i"
    using index_member by blast
  with True show ?thesis by (simp add: edge_features_of_def Let_def)
next
  case False
  then show ?thesis by (simp add: edge_features_of_def Let_def)
qed

lemma edge_rows_total:
  assumes "\<And>h. h \<in> set hs \<Longrightarrow> from_chain h \<in> dom d \<and> to_chain h \<in> dom d"
  shows "\<exists>ea. edge_rows d hs =
           Inr (map (\<lambda>h. [the (d (from_chain h)), the (d (to_chain h))]) hs, ea) \<and>
           length ea = length hs"
  using assms
proof (induction hs)
  case Nil
  then show ?case by simp
next
  case (Cons h hs)
  have "\<And>h'. h' \<in> set hs \<Longrightarrow> from_chain h' \<in> dom d \<and> to_chain h' \<in> dom d"
    using Cons.prems by simp
  from Cons.IH [OF this] obtain ea where r:
    "edge_rows d hs = Inr (map (\<lambda>h. [the (d (from_chain h)), the (d (to_chain h))]) hs, ea)"
    "length ea = length hs"
    by blast
  obtain f where f: "edge_features_of h = Inr f" using edge_features_of_total by blast
  have "from_chain h \<in> dom d" "to_chain h \<in> dom d" using Cons.prems [of h] by simp_all
  then obtain a b where ab: "d (from_chain h) = Some a" "d (to_chain h) = Some b"
    by blast
  show ?case by (simp add: r f ab getitem_def)
qed

lemma transpose_empty_rows: "transpose (map (\<lambda>h. []) hs) = []"
  by (induction hs) auto

lemma transpose_pairs:
  "hs \<noteq> [] \<Longrightarrow> transpose (map (\<lambda>h. [f h, g h]) hs) = [map f hs, map g hs]"
proof (cases hs)
  case Nil
  assume "hs \<noteq> []"
  with Nil show ?thesis by simp
next
  case (Cons a as)
  show ?thesis
    by (simp add: Cons comp_def transpose_empty_rows)
qed

text \<open>What the builder returns whenever every chain of the route can be encoded.\<close>

lemma create_graph_from_route_shape:
  assumes enc: "\<And>c. c \<in> collect_chains (hops route) \<Longrightarrow> \<exists>v. encode_chain self c = Inr v"
  shows "\<exists>g. create_graph_from_route self route = Inr g \<and>
           length (data_x g) = card (collect_chains (hops route)) \<and>
           data_edge_index g =
             transpose (map (\<lambda>h. [the (chain_index (sorted_list_of_set (collect_chains (hops route))) (from_chain h)),
                                   the (chain_index (sorted_list_of_set (collect_chains (hops route))) (to_chain h))])
                          (hops route)) \<and>
           length (data_edge_attr g) = length (hops route)"
proof -
  let ?cs = "sorted_list_of_set (collect_chains (hops route))"
  have set_cs: "set ?cs = collect_chains (hops route)"
    by (simp add: finite_collect_chains)
  have "\<And>c. c \<in> set ?cs \<Longrightarrow> \<exists>v. encode_chain self c = Inr v"
    using enc set_cs by simp
  from node_rows_total [OF this] obtain rows where rows: "node_rows self ?cs = Inr rows"
    by blast
  have len: "length rows = card (collect_chains (hops route))"
    using node_rows_length [OF rows] by simp
  have "\<And>h. h \<in> set (hops route) \<Longrightarrow>
          from_chain h \<in> dom (chain_index ?cs) \<and> to_chain h \<in> dom (chain_index ?cs)"
    unfolding dom_chain_index set_cs by (auto simp: collect_chains_eq)
  from edge_rows_total [OF this] obtain ea where ea:
    "edge_rows (chain_index ?cs) (hops route) =
       Inr (map (\<lambda>h. [the (chain_index ?cs (from_chain h)), the (chain_index ?cs (to_chain h))])
              (hops route), ea)"
    "length ea = length (hops route)"
    by blast
  show ?thesis
    by (simp add: create_graph_from_route_def Let_def rows ea len)
qed

text \<open>
  C5. For every route with a non-empty hop list, \<^verbatim>\<open>create_graph_from_route\<close> returns a
  graph with as many nodes (rows of \<^verbatim>\<open>x\<close>) as there are distinct chain names among the
  \<^verbatim>\<open>from_chain\<close> and \<^verbatim>\<open>to_chain\<close> of the hops, and with as many edges as the route has
  hops: \<^verbatim>\<open>edge_index\<close> has two rows, of sources and targets, one column per hop, and
  \<^verbatim>\<open>edge_attr\<close> has one row per hop. Repeated hops between the same pair of chains are
  counted each.
\<close>

theorem create_graph_from_route_counts:
  assumes "hops route \<noteq> []"
  shows "\<exists>g src dst. create_graph_from_route (init gnn) route = Inr g \<and>
           length (data_x g) = card (\<Union>h \<in> set (hops route). {from_chain h, to_chain h}) \<and>
           data_edge_index g = [src, dst] \<and>
           length src = length (hops route) \<and> length dst = length (hops route) \<and>
           length (data_edge_attr g) = length (hops route)"
proof -
  from create_graph_from_route_shape [of route "init gnn"] encode_chain_init_total
  obtain g where g: "create_graph_from_route (init gnn) route = Inr g"
    "length (data_x g) = card (collect_chains (hops route))"
    "data_edge_index g =
       transpose (map (\<lambda>h. [the (chain_index (sorted_list_of_set (collect_chains (hops route))) (from_chain h)),
                             the (chain_index (sorted_list_of_set (collect_chains (hops route))) (to_chain h))])
                    (hops route))"
    "length (data_edge_attr g) = length (hops route)"
    by blast
  show ?thesis
    using g assms by (simp add: transpose_pairs collect_chains_eq)
qed


text \<open>
  The route of one hop taken twice between the same pair of chains: two nodes, two edges.
\<close>

theorem create_graph_from_route_counts_witness:
  "hops (test_route_2\<lparr>hops := hops test_route_2 @ hops test_route_2\<rparr>) \<noteq> [] \<and>
   (\<exists>g src dst.
      create_graph_from_route (init gnn_example)
        (test_route_2\<lparr>hops := hops test_route_2 @ hops test_route_2\<rparr>) = Inr g \<and>
      length (data_x g) = 2 \<and> data_edge_index g = [src, dst] \<and>
      length src = 2 \<and> length dst = 2 \<and> length (data_edge_attr g) = 2)"
proof -
  let ?r = "test_route_2\<lparr>hops := hops test_route_2 @ hops test_route_2\<rparr>"
  have h: "hops ?r \<noteq> []" by (simp add: test_route_2_def)
  have c: "card (\<Union>h \<in> set (hops ?r). {from_chain h, to_chain h}) = 2"
    by (simp add: test_route_2_def card_insert_if)
  have l: "length (hops ?r) = 2" by (simp add: test_route_2_def)
  show ?thesis
    using h create_graph_from_route_counts [OF h, of gnn_example] unfolding c l by simp
qed


text \<open>
  C1, as stated, does not hold: a route with no hops is not rejected. The builder has no
  check on the hop list, all three loops run zero times, and the empty tensors are put
  into a graph that is returned.
\<close>

theorem create_graph_from_route_no_hops_counterexample:
  "hops \<lparr>source_chain = ''ethereum'', target_chain = ''polkadot'', hops = [],
      estimated_cost = 0, estimated_time_ms = 0, confidence_score = 1\<rparr> = [] \<and>
   create_graph_from_route (init gnn_example)
     \<lparr>source_chain = ''ethereum'', target_chain = ''polkadot'', hops = [],
      estimated_cost = 0, estimated_time_ms = 0, confidence_score = 1\<rparr> =
     Inr \<lparr>data_x = [], data_edge_index = [], data_edge_attr = []\<rparr>"
  by (simp add: create_graph_from_route_def collect_chains_def)

text \<open>
  C1, amended. For every route whose hop list is empty, and every optimizer,
  \<^verbatim>\<open>create_graph_from_route\<close> raises no error and returns the graph with no nodes, no
  edges and no edge features.
\<close>

theorem create_graph_from_route_no_hops:
  assumes "hops route = []"
  shows "create_graph_from_route self route =
           Inr \<lparr>data_x = [], data_edge_index = [], data_edge_attr = []\<rparr>"
  using assms by (simp add: create_graph_from_route_def collect_chains_def)


theorem create_graph_from_route_no_hops_witness:
  "hops \<lparr>source_chain = ''ethereum'', target_chain = ''polkadot'', hops = [],
      estimated_cost = 0, estimated_time_ms = 0, confidence_score = 1\<rparr> = [] \<and>
   create_graph_from_route (init gnn_example)
     \<lparr>source_chain = ''ethereum'', target_chain = ''polkadot'', hops = [],
      estimated_cost = 0, estimated_time_ms = 0, confidence_score = 1\<rparr> =
     Inr \<lparr>data_x = [], data_edge_index = [], data_edge_attr = []\<rparr>"
  using create_graph_from_route_no_hops [of "\<lparr>source_chain = ''ethereum'', target_chain = ''polkadot'', hops = [],
      estimated_cost = 0, estimated_time_ms = 0, confidence_score = 1\<rparr>" "init gnn_example"]
  by simp


subsection \<open>The heuristic cost\<close>



subsection \<open>Scoring\<close>

lemma encode_chain_metadata:
  assumes "chain_metadata self' = chain_metadata self"
  shows "encode_chain self' c = encode_chain self c"
  unfolding encode_chain_def assms ..

lemma node_rows_metadata:
  assumes "chain_metadata self' = chain_metadata self"
  shows "node_rows self' cs = node_rows self cs"
proof (induction cs)
  case Nil
  show ?case by simp
next
  case (Cons c cs)
  show ?case
    unfolding node_rows.simps Cons.IH encode_chain_metadata [OF assms] ..
qed

lemma create_graph_from_route_metadata:
  assumes "chain_metadata self' = chain_metadata self"
  shows "create_graph_from_route self' route = create_graph_from_route self route"
  unfolding create_graph_from_route_def node_rows_metadata [OF assms] ..


lemma Dropout_inference: "\<not> training m \<Longrightarrow> Dropout m g t = (t, g)"
  by (simp add: Dropout_def)

lemma forward_inference:
  "\<not> training m \<Longrightarrow>
     forward T m g x edge_index edge_attr batch =
       (fst (forward T m g' x edge_index edge_attr' batch), g)"
  by (simp add: forward_def Dropout_inference split: sum.splits)

text \<open>
  The score that inference computes from a graph: the forward pass of the network in
  inference mode, on the batch vector of a single graph, and \<open>item\<close> of its output.
\<close>

lemma score_route_cases:
  "score_route T self g route =
     (case create_graph_from_route self route of
        Inl e \<Rightarrow> Inl e
      | Inr graph \<Rightarrow>
          (case fst (forward T (Module_eval (model self)) 0 (data_x graph)
                       (data_edge_index graph) [] (replicate (length (data_x graph)) 0)) of
             Inl e \<Rightarrow> Inl e
           | Inr score \<Rightarrow> item score),
      self\<lparr>model := Module_eval (model self)\<rparr>, g)"
proof -
  define self1 where "self1 = self\<lparr>model := Module_eval (model self)\<rparr>"
  have m: "model self1 = Module_eval (model self)" by (simp add: self1_def)
  have t: "\<not> training (Module_eval (model self))" by (simp add: Module_eval_def)
  have c: "create_graph_from_route self1 route = create_graph_from_route self route"
    by (rule create_graph_from_route_metadata) (simp add: self1_def)
  have d: "score_route T self g route =
     (case create_graph_from_route self route of
           Inl e \<Rightarrow> (Inl e, self1, g)
         | Inr graph \<Rightarrow>
             (case forward T (Module_eval (model self)) g (data_x graph)
                                 (data_edge_index graph) (data_edge_attr graph)
                                 (replicate (length (data_x graph)) 0) of
                (Inl e, h') \<Rightarrow> (Inl e, self1, h')
              | (Inr score, h') \<Rightarrow> (item score, self1, h')))"
    unfolding score_route_def Let_def self1_def [symmetric] c m
    by (simp split: sum.splits prod.splits)
  show ?thesis
  proof (cases "create_graph_from_route self route")
    case (Inl e)
    show ?thesis by (simp only: d Inl sum.case self1_def)
  next
    case (Inr graph)
    define r where "r = fst (forward T (Module_eval (model self)) 0 (data_x graph)
                (data_edge_index graph) [] (replicate (length (data_x graph)) 0))"
    have f: "forward T (Module_eval (model self)) g (data_x graph) (data_edge_index graph)
                (data_edge_attr graph) (replicate (length (data_x graph)) 0) = (r, g)"
      unfolding r_def by (rule forward_inference [OF t])
    have 1: "score_route T self g route =
               (case r of Inl e \<Rightarrow> (Inl e, self1, g) | Inr s \<Rightarrow> (item s, self1, g))"
      by (simp only: d Inr sum.case f prod.case)
    show ?thesis
      unfolding 1 Inr sum.case r_def [symmetric] self1_def [symmetric] by (cases r) simp_all
  qed
qed

lemma score_route_fst:
  "fst (score_route T self g route) =
     (case create_graph_from_route self route of
        Inl e \<Rightarrow> Inl e
      | Inr graph \<Rightarrow>
          (case fst (forward T (Module_eval (model self)) 0 (data_x graph)
                       (data_edge_index graph) [] (replicate (length (data_x graph)) 0)) of
             Inl e \<Rightarrow> Inl e
           | Inr score \<Rightarrow> item score))"
  by (simp only: score_route_cases fst_conv)

lemma score_route_snd:
  "snd (score_route T self g route) = (self\<lparr>model := Module_eval (model self)\<rparr>, g)"
  by (simp only: score_route_cases snd_conv)

lemma score_route_mode:
  assumes "Module_eval (model self') = Module_eval (model self)"
    and "chain_metadata self' = chain_metadata self"
  shows "fst (score_route T self' g' route) = fst (score_route T self g route)"
  by (simp only: score_route_fst assms(1) create_graph_from_route_metadata [OF assms(2)])

text \<open>
  C2. With fixed parameters, two calls of \<^verbatim>\<open>score_route\<close> on the same route return the
  same score: the second call, made in the state that the first call left, returns what
  the first returned. More generally the score does not depend on the mode the model was
  in before the call (the call switches to inference mode itself) nor on the state of the
  random number generator, and it depends on the route only through the graph built from
  it.
\<close>

theorem score_route_deterministic:
  "fst (score_route T (fst (snd (score_route T self g route)))
          (snd (snd (score_route T self g route))) route) =
     fst (score_route T self g route) \<and>
   fst (score_route T (self\<lparr>model := (model self)\<lparr>training := b\<rparr>\<rparr>) g' route) =
     fst (score_route T self g route) \<and>
   (create_graph_from_route self route' = create_graph_from_route self route \<longrightarrow>
      fst (score_route T self g route') = fst (score_route T self g route))"
proof (intro conjI impI)
  show "fst (score_route T (fst (snd (score_route T self g route)))
          (snd (snd (score_route T self g route))) route) =
        fst (score_route T self g route)"
    by (rule score_route_mode) (simp_all add: score_route_snd Module_eval_def)
  show "fst (score_route T (self\<lparr>model := (model self)\<lparr>training := b\<rparr>\<rparr>) g' route) =
        fst (score_route T self g route)"
    by (rule score_route_mode) (simp_all add: Module_eval_def)
next
  assume "create_graph_from_route self route' = create_graph_from_route self route"
  then show "fst (score_route T self g route') = fst (score_route T self g route)"
    by (simp only: score_route_fst)
qed

text \<open>
  The one-hop route of the source's example and the same route with another confidence
  score: different routes, the same graph, the same score, also on a second call.
\<close>

theorem score_route_deterministic_witness:
  "create_graph_from_route (init gnn_example) (test_route_2\<lparr>confidence_score := 0.5\<rparr>) =
     create_graph_from_route (init gnn_example) test_route_2 \<and>
   test_route_2\<lparr>confidence_score := 0.5\<rparr> \<noteq> test_route_2 \<and>
   fst (score_route torch_example (init gnn_example) 0 (test_route_2\<lparr>confidence_score := 0.5\<rparr>)) =
     Inr (6203 / 1000) \<and>
   fst (score_route torch_example (init gnn_example) 0 test_route_2) = Inr (6203 / 1000) \<and>
   fst (score_route torch_example
          (fst (snd (score_route torch_example (init gnn_example) 0 test_route_2)))
          (snd (snd (score_route torch_example (init gnn_example) 0 test_route_2)))
          test_route_2) = Inr (6203 / 1000)"
proof -
  have g: "create_graph_from_route (init gnn_example) (test_route_2\<lparr>confidence_score := 0.5\<rparr>) =
           create_graph_from_route (init gnn_example) test_route_2"
    by (simp add: create_graph_from_route_def)
  have n: "test_route_2\<lparr>confidence_score := 0.5\<rparr> \<noteq> test_route_2"
    by (simp add: test_route_2_def)
  have s: "fst (score_route torch_example (init gnn_example) 0 test_route_2) = Inr (6203 / 1000)"
    by code_simp
  from score_route_deterministic
    [of torch_example "init gnn_example" 0 test_route_2 True 0 "test_route_2\<lparr>confidence_score := 0.5\<rparr>"]
    g n s
  show ?thesis by simp
qed

text \<open>
  C3. Two routes whose graphs have the same node features and the same edge connectivity
  get the same score, whatever their edge features are: the forward pass passes
  \<^verbatim>\<open>edge_index\<close> only to the convolutions and never reads \<^verbatim>\<open>edge_attr\<close>.
\<close>

theorem score_route_ignores_edge_attr:
  assumes "create_graph_from_route self route1 = Inr graph1"
    and "create_graph_from_route self route2 = Inr graph2"
    and "data_x graph1 = data_x graph2"
    and "data_edge_index graph1 = data_edge_index graph2"
  shows "fst (score_route T self g route1) = fst (score_route T self g route2)"
  by (simp only: score_route_fst assms sum.case)

text \<open>
  The one-hop route and the same hop at another cost, time and bridge type: the edge
  features differ, the score does not.
\<close>

theorem score_route_ignores_edge_attr_witness:
  "create_graph_from_route (init gnn_example) test_route_2 =
     Inr \<lparr>data_x = [[0, 3 / 200, 1 / 2, 99 / 100, 1, 0, 0, 0, 0, 0, 0, 0, 0, 0, 0, 0],
                     [1 / 10, 3 / 500, 3 / 10, 49 / 50, 0, 1, 0, 0, 0, 0, 0, 0, 0, 0, 0, 0]],
          data_edge_index = [[0], [1]],
          data_edge_attr = [[4 / 5, 1 / 125, 0, 0, 1, 0]]\<rparr> \<and>
   create_graph_from_route (init gnn_example)
       (test_route_2\<lparr>hops := [\<lparr>from_chain = ''ethereum'', to_chain = ''polkadot'',
                                 bridge_type = ''Relay'', cost = 10000, time_ms = 500\<rparr>]\<rparr>) =
     Inr \<lparr>data_x = [[0, 3 / 200, 1 / 2, 99 / 100, 1, 0, 0, 0, 0, 0, 0, 0, 0, 0, 0, 0],
                     [1 / 10, 3 / 500, 3 / 10, 49 / 50, 0, 1, 0, 0, 0, 0, 0, 0, 0, 0, 0, 0]],
          data_edge_index = [[0], [1]],
          data_edge_attr = [[1 / 10, 1 / 2000, 0, 0, 0, 1]]\<rparr> \<and>
   fst (score_route torch_example (init gnn_example) 0 test_route_2) =
   fst (score_route torch_example (init gnn_example) 0
       (test_route_2\<lparr>hops := [\<lparr>from_chain = ''ethereum'', to_chain = ''polkadot'',
                                 bridge_type = ''Relay'', cost = 10000, time_ms = 500\<rparr>]\<rparr>))"
proof -
  let ?r = "test_route_2\<lparr>hops := [\<lparr>from_chain = ''ethereum'', to_chain = ''polkadot'',
                                 bridge_type = ''Relay'', cost = 10000, time_ms = 500\<rparr>]\<rparr>"
  let ?x = "[[0, 3 / 200, 1 / 2, 99 / 100, 1, 0, 0, 0, 0, 0, 0, 0, 0, 0, 0, 0],
             [1 / 10, 3 / 500, 3 / 10, 49 / 50, 0, 1, 0, 0, 0, 0, 0, 0, 0, 0, 0, 0::real]]"
  have g1: "create_graph_from_route (init gnn_example) test_route_2 =
     Inr \<lparr>data_x = ?x, data_edge_index = [[0], [1]],
          data_edge_attr = [[4 / 5, 1 / 125, 0, 0, 1, 0]]\<rparr>"
    by code_simp
  have g2: "create_graph_from_route (init gnn_example) ?r =
     Inr \<lparr>data_x = ?x, data_edge_index = [[0], [1]],
          data_edge_attr = [[1 / 10, 1 / 2000, 0, 0, 0, 1]]\<rparr>"
    by code_simp
  from score_route_ignores_edge_attr [OF g1 g2, of torch_example 0] g1 g2
  show ?thesis by simp
qed


subsection \<open>Selecting a route\<close>

text \<open>
  C8. \<^verbatim>\<open>optimize_route\<close> on the empty list raises \<^verbatim>\<open>ValueError("No routes provided")\<close>;
  no route is scored, so the optimizer and the generator are as before.
\<close>

theorem optimize_route_empty:
  "optimize_route T self g [] = (Inl (ValueError ''No routes provided''), self, g)"
  by (simp add: optimize_route_def)

text \<open>
  C9. \<^verbatim>\<open>optimize_route\<close> on a list of one route returns that route, whatever the library
  and the parameters are, and does not call the scorer: the optimizer is returned as it
  was, also in training mode, which a call of \<^verbatim>\<open>score_route\<close> would have switched off.
\<close>

theorem optimize_route_single:
  "optimize_route T self g [route] = (Inr route, self, g)"
  by (simp add: optimize_route_def)

lemma score_all_scores:
  assumes "map (\<lambda>r. fst (score_route T self g r)) routes = map Inr scores"
  shows "fst (score_all T self g routes) = Inr (zip scores routes)"
  using assms
proof (induction routes arbitrary: scores self)
  case Nil
  then show ?case by simp
next
  case (Cons r routes)
  from Cons.prems obtain s ss where ss: "scores = s # ss"
    "fst (score_route T self g r) = Inr s"
    "map (\<lambda>r. fst (score_route T self g r)) routes = map Inr ss"
    by (cases scores) auto
  define self1 where "self1 = self\<lparr>model := Module_eval (model self)\<rparr>"
  have sr: "score_route T self g r = (Inr s, self1, g)"
    using ss(2) score_route_snd [of T self g r] unfolding self1_def
    by (metis prod.collapse)
  have "\<And>r. fst (score_route T self1 g r) = fst (score_route T self g r)"
    by (rule score_route_mode) (simp_all add: self1_def Module_eval_def)
  then have "map (\<lambda>r. fst (score_route T self1 g r)) routes = map Inr ss"
    using ss(3) by simp
  from Cons.IH [OF this] have ih: "fst (score_all T self1 g routes) = Inr (zip ss routes)" .
  obtain st where st: "score_all T self1 g routes = (Inr (zip ss routes), st)"
    using ih by (metis prod.collapse)
  obtain a b where ab: "st = (a, b)" by (cases st)
  show ?case
    by (simp add: sr st ab ss(1))
qed

lemma hd_insort_key:
  "hd (insort_key k x ys) = (if ys = [] \<or> k x \<le> k (hd ys) then x else hd ys)"
  by (cases ys) auto

lemma sort_key_nonempty: "xs \<noteq> [] \<Longrightarrow> sort_key k xs \<noteq> []"
  by (metis length_sort length_0_conv)

lemma hd_sort_key_first_min:
  fixes k :: "'a \<Rightarrow> 'b::linorder"
  assumes "xs \<noteq> []"
  shows "\<exists>i<length xs. hd (sort_key k xs) = xs ! i \<and>
           (\<forall>j<length xs. k (xs ! i) \<le> k (xs ! j)) \<and>
           (\<forall>j<i. k (xs ! i) < k (xs ! j))"
  using assms
proof (induction xs)
  case Nil
  then show ?case by simp
next
  case (Cons x xs)
  show ?case
  proof (cases "xs = []")
    case True
    then show ?thesis by simp
  next
    case False
    from Cons.IH [OF False] obtain i where i: "i < length xs"
      "hd (sort_key k xs) = xs ! i"
      "\<forall>j<length xs. k (xs ! i) \<le> k (xs ! j)"
      "\<forall>j<i. k (xs ! i) < k (xs ! j)"
      by blast
    have ne: "sort_key k xs \<noteq> []" using False by (rule sort_key_nonempty)
    have hd: "hd (sort_key k (x # xs)) = (if k x \<le> k (xs ! i) then x else xs ! i)"
      by (simp add: hd_insort_key ne i(2))
    show ?thesis
    proof (cases "k x \<le> k (xs ! i)")
      case True
      have "\<forall>j<length (x # xs). k ((x # xs) ! 0) \<le> k ((x # xs) ! j)"
      proof (intro allI impI)
        fix j assume "j < length (x # xs)"
        then show "k ((x # xs) ! 0) \<le> k ((x # xs) ! j)"
          using True i(3) by (cases j) (auto intro: order_trans)
      qed
      then show ?thesis
        using hd True by (intro exI [of _ 0]) simp
    next
      case False
      then have lt: "k (xs ! i) < k x" by simp
      have a: "\<forall>j<length (x # xs). k ((x # xs) ! Suc i) \<le> k ((x # xs) ! j)"
      proof (intro allI impI)
        fix j assume "j < length (x # xs)"
        then show "k ((x # xs) ! Suc i) \<le> k ((x # xs) ! j)"
          using lt i(3) by (cases j) auto
      qed
      have b: "\<forall>j<Suc i. k ((x # xs) ! Suc i) < k ((x # xs) ! j)"
      proof (intro allI impI)
        fix j assume "j < Suc i"
        then show "k ((x # xs) ! Suc i) < k ((x # xs) ! j)"
          using lt i(4) by (cases j) auto
      qed
      show ?thesis
        using hd False i(1) a b by (intro exI [of _ "Suc i"]) simp
    qed
  qed
qed

text \<open>
  C4. For a list of two or more candidates, each of which \<^verbatim>\<open>score_route\<close> scores without
  raising, \<^verbatim>\<open>optimize_route\<close> returns the first candidate, in input order, whose score
  is the maximum of the scores: every earlier candidate has a strictly smaller score. So
  of two candidates tied for the maximum the earlier one is returned. The scores are those
  of \<^verbatim>\<open>score_route\<close> in the state before the call; the calls inside the loop return the
  same ones.
\<close>

theorem optimize_route_first_maximum:
  assumes "2 \<le> length routes"
    and "map (\<lambda>r. fst (score_route T self g r)) routes = map Inr scores"
  shows "\<exists>i<length routes.
           fst (optimize_route T self g routes) = Inr (routes ! i) \<and>
           scores ! i = Max (set scores) \<and>
           (\<forall>j<i. scores ! j < scores ! i)"
proof -
  have len: "length scores = length routes"
    using assms(2) by (metis length_map)
  let ?xs = "zip scores routes"
  have lx: "length ?xs = length routes" using len by simp
  have ne: "?xs \<noteq> []" using assms(1) lx by (metis length_0_conv not_numeral_le_zero)
  from hd_sort_key_first_min [OF ne, of "\<lambda>x. - fst x"] obtain i where i:
    "i < length ?xs" "hd (sort_key (\<lambda>x. - fst x) ?xs) = ?xs ! i"
    "\<forall>j<length ?xs. - fst (?xs ! i) \<le> - fst (?xs ! j)"
    "\<forall>j<i. - fst (?xs ! i) < - fst (?xs ! j)"
    by blast
  have il: "i < length routes" "i < length scores" using i(1) len by simp_all
  have nth: "\<And>j. j < length routes \<Longrightarrow> ?xs ! j = (scores ! j, routes ! j)"
    using len by simp
  have ge: "\<forall>j<length scores. scores ! j \<le> scores ! i"
    using i(3) nth il len by simp
  have lt: "\<forall>j<i. scores ! j < scores ! i"
    using i(4) nth il by simp
  have "scores ! i \<in> set scores" using il(2) by simp
  moreover have "\<forall>s\<in>set scores. s \<le> scores ! i"
    using ge by (metis in_set_conv_nth)
  ultimately have mx: "scores ! i = Max (set scores)"
    by (metis List.finite_set Max_eqI)
  obtain st where st: "score_all T self g routes = (Inr ?xs, st)"
    using score_all_scores [OF assms(2)] by (metis prod.collapse)
  obtain a b where ab: "st = (a, b)" by (cases st)
  have sne: "sort_key (\<lambda>x. - fst x) ?xs \<noteq> []" using ne by (rule sort_key_nonempty)
  then obtain best rest where br: "sort_key (\<lambda>x. - fst x) ?xs = best # rest"
    by (cases "sort_key (\<lambda>x. - fst x) ?xs") auto
  have best: "best = (scores ! i, routes ! i)"
    using i(2) br nth [OF il(1)] by simp
  have r1: "routes \<noteq> []" "length routes \<noteq> Suc 0" using assms(1) by auto
  have "fst (optimize_route T self g routes) = Inr (routes ! i)"
    by (simp add: optimize_route_def r1 st ab sort_reverse_def br best)
  with il(1) mx lt show ?thesis by blast
qed


text \<open>
  Three candidates, the second and third tied for the maximum: the second is returned.
\<close>

theorem optimize_route_first_maximum_witness:
  "2 \<le> length [test_route_2, test_route_1, test_route_1\<lparr>estimated_cost := 1\<rparr>] \<and>
   map (\<lambda>r. fst (score_route torch_example (init gnn_example) 0 r))
     [test_route_2, test_route_1, test_route_1\<lparr>estimated_cost := 1\<rparr>] =
     map Inr [6203 / 1000, 9961 / 1000, 9961 / 1000] \<and>
   test_route_1 \<noteq> test_route_1\<lparr>estimated_cost := 1\<rparr> \<and>
   fst (optimize_route torch_example (init gnn_example) 0
          [test_route_2, test_route_1, test_route_1\<lparr>estimated_cost := 1\<rparr>]) =
     Inr test_route_1"
proof -
  let ?rs = "[test_route_2, test_route_1, test_route_1\<lparr>estimated_cost := 1\<rparr>]"
  let ?ss = "[6203 / 1000, 9961 / 1000, 9961 / 1000 :: real]"
  have l: "2 \<le> length ?rs" by simp
  have s2: "fst (score_route torch_example (init gnn_example) 0 test_route_2) = Inr (6203 / 1000)"
    by code_simp
  have s1: "fst (score_route torch_example (init gnn_example) 0 test_route_1) = Inr (9961 / 1000)"
    by code_simp
  have s3: "fst (score_route torch_example (init gnn_example) 0
                   (test_route_1\<lparr>estimated_cost := 1\<rparr>)) = Inr (9961 / 1000)"
    by code_simp
  have m: "map (\<lambda>r. fst (score_route torch_example (init gnn_example) 0 r)) ?rs = map Inr ?ss"
    by (simp add: s1 s2 s3)
  have n: "test_route_1 \<noteq> test_route_1\<lparr>estimated_cost := 1\<rparr>"
    by (simp add: test_route_1_def)
  from optimize_route_first_maximum [OF l m] obtain i where i: "i < length ?rs"
    "fst (optimize_route torch_example (init gnn_example) 0 ?rs) = Inr (?rs ! i)"
    "?ss ! i = Max (set ?ss)" "\<forall>j<i. ?ss ! j < ?ss ! i"
    by blast
  have "i = 0 \<or> i = 1 \<or> i = 2" using i(1) by auto
  then have "i = 1"
  proof (elim disjE)
    assume "i = 0" with i(3) show ?thesis by simp
  next
    assume "i = 1" then show ?thesis .
  next
    assume i2: "i = 2"
    have "(1::nat) < 2" by simp
    with i(4) have "?ss ! 1 < ?ss ! 2" unfolding i2 by blast
    then show ?thesis by simp
  qed
  with i(2) l m n show ?thesis by simp
qed


subsection \<open>A training step\<close>

lemma train_step_cases:
  "train_step T self g batch_graphs labels =
     (case from_data_list T batch_graphs of
        Inl e \<Rightarrow> (Inl e, self\<lparr>model := Module_train (model self)\<rparr>, g)
      | Inr batch \<Rightarrow>
          (case forward T (Module_train (model self)) g (data_x batch)
                  (data_edge_index batch) (data_edge_attr batch) (data_batch batch) of
             (Inl e, g') \<Rightarrow> (Inl e, self\<lparr>model := Module_train (model self)\<rparr>, g')
           | (Inr predictions, g') \<Rightarrow>
               (mse_loss T (squeeze T predictions) labels,
                self\<lparr>model := Module_train (model self)\<rparr>, g')))"
proof -
  define self1 where "self1 = self\<lparr>model := Module_train (model self)\<rparr>"
  have m: "model self1 = Module_train (model self)" by (simp add: self1_def)
  show ?thesis
    unfolding train_step_def Let_def self1_def [symmetric] m
    by (simp split: sum.splits prod.splits)
qed

text \<open>
  C10. \<^verbatim>\<open>train_step\<close> leaves the optimizer as it was except for the flag \<^verbatim>\<open>training\<close>,
  which it sets: the layers, that is the parameters, are unchanged, whether the step
  returns or raises. When batching and the forward pass succeed, the value returned is
  \<^verbatim>\<open>F.mse_loss\<close> of the squeezed predictions and the labels.
\<close>

theorem train_step_frame:
  "fst (snd (train_step T self g batch_graphs labels)) =
     self\<lparr>model := (model self)\<lparr>training := True\<rparr>\<rparr> \<and>
   (from_data_list T batch_graphs = Inr batch \<and>
    fst (forward T ((model self)\<lparr>training := True\<rparr>) g (data_x batch) (data_edge_index batch)
           (data_edge_attr batch) (data_batch batch)) = Inr predictions \<longrightarrow>
    fst (train_step T self g batch_graphs labels) =
      mse_loss T (squeeze T predictions) labels)"
  unfolding train_step_cases Module_train_def
  by (auto split: sum.splits prod.splits)

text \<open>
  A batch of two graphs with the generator at 1: the loss is the mean of the squared
  differences, and the optimizer comes back in training mode with its layers untouched.
\<close>

theorem train_step_frame_witness:
  "from_data_list torch_example
     [\<lparr>data_x = [[1, 2], [3, 4]], data_edge_index = [[0], [1]], data_edge_attr = [[5]]\<rparr>,
      \<lparr>data_x = [[1, 1]], data_edge_index = [[0], [0]], data_edge_attr = [[7]]\<rparr>] =
     Inr \<lparr>data_x = [[1, 2], [3, 4], [1, 1]], data_edge_index = [[0, 2], [1, 2]],
          data_edge_attr = [[5], [7]], data_batch = [0, 0, 1]\<rparr> \<and>
   fst (forward torch_example ((model (init gnn_example))\<lparr>training := True\<rparr>) 1
          [[1, 2], [3, 4], [1, 1]] [[0, 2], [1, 2]] [[5], [7]] [0, 0, 1]) =
     Inr [[2375 / 128], [125 / 4]] \<and>
   fst (train_step torch_example (init gnn_example) 1
          [\<lparr>data_x = [[1, 2], [3, 4]], data_edge_index = [[0], [1]], data_edge_attr = [[5]]\<rparr>,
           \<lparr>data_x = [[1, 1]], data_edge_index = [[0], [0]], data_edge_attr = [[7]]\<rparr>]
          [2375 / 128, 133 / 4]) = Inr 2 \<and>
   fst (snd (train_step torch_example (init gnn_example) 1
          [\<lparr>data_x = [[1, 2], [3, 4]], data_edge_index = [[0], [1]], data_edge_attr = [[5]]\<rparr>,
           \<lparr>data_x = [[1, 1]], data_edge_index = [[0], [0]], data_edge_attr = [[7]]\<rparr>]
          [2375 / 128, 133 / 4])) =
     (init gnn_example)\<lparr>model := (model (init gnn_example))\<lparr>training := True\<rparr>\<rparr>"
proof -
  let ?gs = "[\<lparr>data_x = [[1, 2], [3, 4]], data_edge_index = [[0], [1]], data_edge_attr = [[5]]\<rparr>,
      \<lparr>data_x = [[1, 1]], data_edge_index = [[0], [0]], data_edge_attr = [[7]]\<rparr>]"
  let ?b = "\<lparr>data_x = [[1, 2], [3, 4], [1, 1]], data_edge_index = [[0, 2], [1, 2]],
          data_edge_attr = [[5], [7]], data_batch = [0, 0, 1]\<rparr>"
  have b: "from_data_list torch_example ?gs = Inr ?b"
    by code_simp
  have f: "fst (forward torch_example ((model (init gnn_example))\<lparr>training := True\<rparr>) 1
          [[1, 2], [3, 4], [1, 1]] [[0, 2], [1, 2]] [[5], [7]] [0, 0, 1]) =
     Inr [[2375 / 128], [125 / 4]]"
    by code_simp
  have m: "mse_loss torch_example (squeeze torch_example [[2375 / 128], [125 / 4]])
             [2375 / 128, 133 / 4] = Inr 2"
    by code_simp
  from train_step_frame [of torch_example "init gnn_example" 1 ?gs "[2375 / 128, 133 / 4]" ?b
      "[[2375 / 128], [125 / 4]]"] b f m
  show ?thesis by simp
qed

end
